theory Spec2Isabelle
  imports Complex_Main
begin

section \<open>Python values, errors and string formatting\<close>

text \<open>
  The dashboard of \<^verbatim>\<open>app.py\<close> is modelled function by function. Python
  floats are modelled by real numbers, computed exactly: every arithmetic step of the
  source is kept, its IEEE rounding is not. The exceptions the source can raise are
  values of \<open>error\<close>, and a function that can raise returns \<open>error + 'a\<close> with
  \<open>Inl\<close> for the exception.
\<close>

datatype error = ValueError | KeyError | TypeError

text \<open>The JSON values a feature property can hold: \<^verbatim>\<open>None\<close>, a number or a string.\<close>

datatype pyval = PyNone | PyNum real | PyStr string

text \<open>Python truthiness, as used by \<^verbatim>\<open>if start_mean_radiance and end_mean_radiance\<close>.\<close>

fun truthy :: "pyval \<Rightarrow> bool" where
  "truthy PyNone = False"
| "truthy (PyNum x) = (x \<noteq> 0)"
| "truthy (PyStr s) = (s \<noteq> [])"

definition digit_char :: "nat \<Rightarrow> char" where
  "digit_char d = ''0123456789abcdef'' ! d"

fun dec_digits :: "nat \<Rightarrow> string" where
  "dec_digits n =
     (if n < 10 then [digit_char n] else dec_digits (n div 10) @ [digit_char (n mod 10)])"

fun hex_digits :: "nat \<Rightarrow> string" where
  "hex_digits n =
     (if n < 16 then [digit_char n] else hex_digits (n div 16) @ [digit_char (n mod 16)])"

declare dec_digits.simps [simp del]
declare hex_digits.simps [simp del]

definition zero_pad :: "nat \<Rightarrow> string \<Rightarrow> string" where
  "zero_pad w s = replicate (w - length s) (CHR ''0'') @ s"

text \<open>\<^verbatim>\<open>f"{n}"\<close> for an integer.\<close>

definition str_int :: "int \<Rightarrow> string" where
  "str_int n = (if n < 0 then CHR ''-'' # dec_digits (nat (- n)) else dec_digits (nat n))"

text \<open>
  \<^verbatim>\<open>f"{n:02d}"\<close> and \<^verbatim>\<open>"{:02x}".format(n)\<close>: the width 2 is a minimum and counts the
  sign; longer numbers are not cut.
\<close>

definition format_02d :: "int \<Rightarrow> string" where
  "format_02d n =
     (if n < 0 then CHR ''-'' # zero_pad 1 (dec_digits (nat (- n)))
      else zero_pad 2 (dec_digits (nat n)))"

definition format_02x :: "int \<Rightarrow> string" where
  "format_02x n =
     (if n < 0 then CHR ''-'' # zero_pad 1 (hex_digits (nat (- n)))
      else zero_pad 2 (hex_digits (nat n)))"

text \<open>\<^verbatim>\<open>int(x)\<close> of a float truncates towards zero.\<close>

definition py_int :: "real \<Rightarrow> int" where
  "py_int x = (if 0 \<le> x then \<lfloor>x\<rfloor> else \<lceil>x\<rceil>)"

text \<open>The builtins \<^verbatim>\<open>min\<close> and \<^verbatim>\<open>max\<close> raise \<^verbatim>\<open>ValueError\<close> on an empty sequence.\<close>

definition py_min :: "real list \<Rightarrow> error + real" where
  "py_min xs =
     (case xs of [] \<Rightarrow> Inl ValueError
      | y # ys \<Rightarrow> Inr (fold (\<lambda>x m. if x < m then x else m) ys y))"

definition py_max :: "real list \<Rightarrow> error + real" where
  "py_max xs =
     (case xs of [] \<Rightarrow> Inl ValueError
      | y # ys \<Rightarrow> Inr (fold (\<lambda>x m. if m < x then x else m) ys y))"

section \<open>The numpy functions used by the colormap\<close>

text \<open>
  \<^verbatim>\<open>np.interp(x, (x0, x1), (y0, y1))\<close> with two sample points: values right of \<open>x1\<close>
  get \<open>y1\<close>, values left of \<open>x0\<close> get \<open>y0\<close>, a value equal to a sample point gets
  that point's value (the last point first), and the slope is used strictly in between
  only. It raises nothing, also when \<open>x0 = x1\<close>.
\<close>

definition np_interp :: "real list \<Rightarrow> real \<times> real \<Rightarrow> real \<times> real \<Rightarrow> real list" where
  "np_interp xs xp fp =
     (case (xp, fp) of ((x0, x1), (y0, y1)) \<Rightarrow>
        map (\<lambda>x. if x1 < x then y1
                 else if x < x0 then y0
                 else if x1 \<le> x then y1
                 else if x = x0 then y0
                 else (y1 - y0) / (x1 - x0) * (x - x0) + y0) xs)"

text \<open>
  \<^verbatim>\<open>np.linspace(start, stop, num)\<close> on vectors, endpoint included: \<open>num\<close> rows
  \<open>start + k / (num - 1) * (stop - start)\<close>, the last one overwritten by \<open>stop\<close> when
  \<open>num > 1\<close>; a single row is \<open>start\<close>.
\<close>

definition np_linspace :: "real list \<Rightarrow> real list \<Rightarrow> nat \<Rightarrow> real list list" where
  "np_linspace start stop num =
     (let delta = map2 (\<lambda>b a. b - a) stop start;
          arange = map real [0..<num];
          y = (if 1 < num then
                 (let dv = real (num - 1); step = map (\<lambda>d. d / dv) delta
                  in if list_ex (\<lambda>s. s = 0) step
                     then map (\<lambda>k. map (\<lambda>d. k / dv * d) delta) arange
                     else map (\<lambda>k. map (\<lambda>s. k * s) step) arange)
               else map (\<lambda>k. map (\<lambda>d. k * d) delta) arange);
          y' = map (\<lambda>r. map2 (\<lambda>a b. a + b) r start) y
      in if 1 < num then butlast y' @ [stop] else y')"

section \<open>The colormap generator\<close>

text \<open>The two colours of the source, \<^verbatim>\<open>colors = [(0, 0, 255), (1, 0, 0)]\<close>.\<close>

definition colors :: "real list list" where
  "colors = [[0, 0, 255], [1, 0, 0]]"

text \<open>
  The list comprehension over \<^verbatim>\<open>np.linspace(colors[0], colors[1], n)\<close>: every channel
  is multiplied by 255 and truncated.
\<close>

definition colormap_values :: "nat \<Rightarrow> (int \<times> int \<times> int) list" where
  "colormap_values n =
     map (\<lambda>c. (py_int (c ! 0 * 255), py_int (c ! 1 * 255), py_int (c ! 2 * 255)))
       (np_linspace (colors ! 0) (colors ! 1) n)"

definition hex_color :: "int \<times> int \<times> int \<Rightarrow> string" where
  "hex_color rgb =
     (case rgb of (r, g, b) \<Rightarrow> ''#'' @ format_02x r @ format_02x g @ format_02x b)"

definition create_colormap :: "real list \<Rightarrow> error + string list" where
  "create_colormap percentage_changes =
     (case py_min percentage_changes of
        Inl e \<Rightarrow> Inl e
      | Inr lo \<Rightarrow>
          (case py_max percentage_changes of
             Inl e \<Rightarrow> Inl e
           | Inr hi \<Rightarrow>
               (let norm_changes = np_interp percentage_changes (lo, hi) (0, 1);
                    hex_colors = map hex_color (colormap_values (length norm_changes))
                in Inr hex_colors)))"

text \<open>The regular expression \<^verbatim>\<open>^#[0-9a-f]{6}$\<close>.\<close>

definition is_hex_color :: "string \<Rightarrow> bool" where
  "is_hex_color s =
     (case s of [] \<Rightarrow> False
      | c # cs \<Rightarrow> c = CHR ''#'' \<and> length cs = 6 \<and> list_all (\<lambda>d. d \<in> set ''0123456789abcdef'') cs)"

section \<open>The change calculator\<close>

record feature =
  properties :: "string \<rightharpoonup> pyval"

record row =
  State :: pyval
  Start_Mean_Radiance :: pyval
  End_Mean_Radiance :: pyval
  Percentage_Change :: "real option"

text \<open>\<^verbatim>\<open>feature["properties"].get("mean", None)\<close>.\<close>

definition get_mean :: "feature \<Rightarrow> pyval" where
  "get_mean f = (case properties f ''mean'' of None \<Rightarrow> PyNone | Some v \<Rightarrow> v)"

text \<open>
  The percentage change of one region. Subtracting or dividing strings raises
  \<^verbatim>\<open>TypeError\<close>; the divisor is truthy, hence not zero.
\<close>

definition percentage_change :: "pyval \<Rightarrow> pyval \<Rightarrow> error + real option" where
  "percentage_change start_mean_radiance end_mean_radiance =
     (if truthy start_mean_radiance \<and> truthy end_mean_radiance then
        (case (start_mean_radiance, end_mean_radiance) of
           (PyNum s, PyNum e) \<Rightarrow> Inr (Some ((e - s) / s * 100))
         | _ \<Rightarrow> Inl TypeError)
      else Inr None)"

text \<open>The body of the loop up to the dictionary it appends to \<^verbatim>\<open>data\<close>.\<close>

definition region_row :: "feature \<Rightarrow> feature \<Rightarrow> error + row" where
  "region_row start_feature end_feature =
     (case properties start_feature ''ADM1_NAME'' of
        None \<Rightarrow> Inl KeyError
      | Some state_name \<Rightarrow>
          (let start_mean_radiance = get_mean start_feature;
               end_mean_radiance = get_mean end_feature
           in case percentage_change start_mean_radiance end_mean_radiance of
                Inl e \<Rightarrow> Inl e
              | Inr pc \<Rightarrow>
                  Inr \<lparr>State = state_name,
                       Start_Mean_Radiance = start_mean_radiance,
                       End_Mean_Radiance = end_mean_radiance,
                       Percentage_Change = pc\<rparr>))"

text \<open>
  The loop over \<^verbatim>\<open>zip(features_start, features_end)\<close> with its two accumulators
  \<^verbatim>\<open>data\<close> and \<^verbatim>\<open>percentage_changes\<close>.
\<close>

fun region_loop ::
  "(feature \<times> feature) list \<Rightarrow> row list \<Rightarrow> real list \<Rightarrow> error + (row list \<times> real list)" where
  "region_loop [] data percentage_changes = Inr (data, percentage_changes)"
| "region_loop ((start_feature, end_feature) # rest) data percentage_changes =
     (case region_row start_feature end_feature of
        Inl e \<Rightarrow> Inl e
      | Inr r \<Rightarrow>
          region_loop rest (data @ [r])
            (case Percentage_Change r of
               None \<Rightarrow> percentage_changes
             | Some pc \<Rightarrow> percentage_changes @ [pc]))"

section \<open>Fetching the data and rendering it\<close>

datatype dataframe = DataFrame (columns: "string list") (records: "pyval list list")

text \<open>\<^verbatim>\<open>pd.DataFrame(data)\<close> of a list of dictionaries: one column for each key.\<close>

definition pd_DataFrame :: "row list \<Rightarrow> dataframe" where
  "pd_DataFrame data =
     (if data = [] then DataFrame [] []
      else DataFrame
        [''State'', ''Start Mean Radiance'', ''End Mean Radiance'', ''Percentage Change'']
        (map (\<lambda>r. [State r, Start_Mean_Radiance r, End_Mean_Radiance r,
                    (case Percentage_Change r of None \<Rightarrow> PyNone | Some pc \<Rightarrow> PyNum pc)])
           data))"

definition error_frame :: dataframe where
  "error_frame =
     DataFrame [''Error''] [[PyStr ''No data available for the selected months.'']]"

record map_widget =
  center :: "real \<times> real"
  zoom :: int

definition geemap_Map :: "real \<times> real \<Rightarrow> int \<Rightarrow> map_widget" where
  "geemap_Map c z = \<lparr>center = c, zoom = z\<rparr>"

text \<open>The four selections of the form, after \<^verbatim>\<open>int(...)\<close>.\<close>

record inputs =
  start_year :: int
  start_month :: int
  end_year :: int
  end_month :: int

definition year_choices :: "int list" where
  "year_choices = [2024, 2025]"

definition month_choices :: "int list" where
  "month_choices = [1, 2, 3, 4, 5, 6, 7, 8, 9, 10, 11, 12]"

text \<open>
  The remote imagery service, a parameter of the model: for a date range, the number of
  images of the filtered collection (\<^verbatim>\<open>size().getInfo()\<close>) and the features of the
  region reduction of its mosaic (\<^verbatim>\<open>getInfo()["features"]\<close>). Failures of the remote
  calls themselves are outside the model.
\<close>

record ee_service =
  collection_size :: "string \<times> string \<Rightarrow> nat"
  reduce_regions :: "string \<times> string \<Rightarrow> feature list"

definition start_date :: "inputs \<Rightarrow> string" where
  "start_date inp = str_int (start_year inp) @ ''-'' @ format_02d (start_month inp) @ ''-01''"

definition end_date :: "inputs \<Rightarrow> string" where
  "end_date inp = str_int (end_year inp) @ ''-'' @ format_02d (end_month inp) @ ''-01''"

text \<open>The arguments of \<^verbatim>\<open>ee.Filter.date\<close> of the two image collections.\<close>

definition nightlights_start :: "inputs \<Rightarrow> string \<times> string" where
  "nightlights_start inp =
     (start_date inp,
      str_int (start_year inp) @ ''-'' @ format_02d (start_month inp) @ ''-28'')"

definition nightlights_end :: "inputs \<Rightarrow> string \<times> string" where
  "nightlights_end inp =
     (end_date inp,
      str_int (end_year inp) @ ''-'' @ format_02d (end_month inp) @ ''-28'')"

text \<open>
  What \<^verbatim>\<open>fetch_data\<close> returns: a bare data frame on the early return, a pair of a
  data frame and a map otherwise.
\<close>

datatype fetch_result = Frame dataframe | Tuple2 dataframe map_widget

definition fetch_data :: "ee_service \<Rightarrow> inputs \<Rightarrow> error + fetch_result" where
  "fetch_data ee inp =
     (if collection_size ee (nightlights_start inp) = 0
         \<or> collection_size ee (nightlights_end inp) = 0
      then Inr (Frame error_frame)
      else
        (let features_start = reduce_regions ee (nightlights_start inp);
             features_end = reduce_regions ee (nightlights_end inp)
         in case region_loop (zip features_start features_end) [] [] of
              Inl e \<Rightarrow> Inl e
            | Inr (data, percentage_changes) \<Rightarrow>
                (case create_colormap percentage_changes of
                   Inl e \<Rightarrow> Inl e
                 | Inr hex_colors \<Rightarrow>
                     Inr (Tuple2 (pd_DataFrame data) (geemap_Map (35, 105) 5)))))"

text \<open>
  The objects the two renderers can hand to the presentation layer. Unpacking
  \<^verbatim>\<open>a, b = x\<close> iterates \<open>x\<close>: a pair gives its two components, a data frame gives
  its column labels, and anything but two of them raises \<^verbatim>\<open>ValueError\<close>.
\<close>

datatype pyobj = ObjFrame dataframe | ObjMap map_widget | ObjLabel string

fun unpack2 :: "fetch_result \<Rightarrow> error + (pyobj \<times> pyobj)" where
  "unpack2 (Tuple2 df m) = Inr (ObjFrame df, ObjMap m)"
| "unpack2 (Frame df) =
     (case columns df of [a, b] \<Rightarrow> Inr (ObjLabel a, ObjLabel b) | _ \<Rightarrow> Inl ValueError)"

definition table :: "ee_service \<Rightarrow> inputs \<Rightarrow> error + pyobj" where
  "table ee inp =
     (case fetch_data ee inp of
        Inl e \<Rightarrow> Inl e
      | Inr res \<Rightarrow> (case unpack2 res of Inl e \<Rightarrow> Inl e | Inr (data, _) \<Rightarrow> Inr data))"

definition map_output :: "ee_service \<Rightarrow> inputs \<Rightarrow> error + pyobj" where
  "map_output ee inp =
     (case fetch_data ee inp of
        Inl e \<Rightarrow> Inl e
      | Inr res \<Rightarrow> (case unpack2 res of Inl e \<Rightarrow> Inl e | Inr (_, Map) \<Rightarrow> Inr Map))"

section \<open>Auxiliary definitions for the statements\<close>

text \<open>The numbers the loop appends to \<^verbatim>\<open>percentage_changes\<close>, read off the rows.\<close>

definition collect :: "row list \<Rightarrow> real list" where
  "collect rows =
     concat (map (\<lambda>r. case Percentage_Change r of None \<Rightarrow> [] | Some pc \<Rightarrow> [pc]) rows)"

text \<open>A property value that is a string; the service's means are numbers or missing.\<close>

fun is_str :: "pyval \<Rightarrow> bool" where
  "is_str (PyStr s) = True"
| "is_str v = False"

text \<open>
  The format \<^verbatim>\<open>YYYY-MM-DD\<close>: a year of four digits, a month and a day of two digits.
\<close>

primrec fixed_digits :: "nat \<Rightarrow> nat \<Rightarrow> string" where
  "fixed_digits 0 n = []"
| "fixed_digits (Suc w) n = fixed_digits w (n div 10) @ [digit_char (n mod 10)]"

definition yyyy_mm_dd :: "int \<Rightarrow> int \<Rightarrow> int \<Rightarrow> string" where
  "yyyy_mm_dd y m d =
     fixed_digits 4 (nat y) @ ''-'' @ fixed_digits 2 (nat m) @ ''-'' @ fixed_digits 2 (nat d)"

text \<open>
  Example data: a feature with a region name and a mean, and a service that answers the
  two queries of January and February 2024 with \<open>n_end\<close> images for February.
\<close>

definition region_feature :: "string \<Rightarrow> pyval \<Rightarrow> feature" where
  "region_feature name m = \<lparr>properties = [''ADM1_NAME'' \<mapsto> PyStr name, ''mean'' \<mapsto> m]\<rparr>"

definition example_service :: "nat \<Rightarrow> feature list \<Rightarrow> feature list \<Rightarrow> ee_service" where
  "example_service n_end fs fe =
     \<lparr>collection_size = (\<lambda>r. if r = (''2024-02-01'', ''2024-02-28'') then n_end else 1),
      reduce_regions = (\<lambda>r. if r = (''2024-02-01'', ''2024-02-28'') then fe else fs)\<rparr>"

definition example_inputs :: inputs where
  "example_inputs = \<lparr>start_year = 2024, start_month = 1, end_year = 2024, end_month = 2\<rparr>"

section \<open>Properties of the colormap generator\<close>

lemma length_np_linspace: "length (np_linspace a b n) = n"
  by (cases n) (simp_all add: np_linspace_def Let_def)

lemma length_colormap_values: "length (colormap_values n) = n"
  by (simp add: colormap_values_def length_np_linspace)

lemma length_np_interp: "length (np_interp xs xp fp) = length xs"
  by (simp add: np_interp_def split: prod.splits)

lemma create_colormap_Nil: "create_colormap [] = Inl ValueError"
  by (simp add: create_colormap_def py_min_def)

lemma create_colormap_nonempty:
  "xs \<noteq> [] \<Longrightarrow> create_colormap xs = Inr (map hex_color (colormap_values (length xs)))"
  by (cases xs) (simp_all add: create_colormap_def py_min_def py_max_def length_np_interp)

text \<open>The colours of two and of three values, evaluated.\<close>

lemma hex_color_blue: "hex_color (0, 0, 65025) = ''#0000fe01''"
  by (simp add: hex_color_def format_02x_def zero_pad_def hex_digits.simps digit_char_def)

lemma hex_color_mid: "hex_color (127, 0, 32512) = ''#7f007f00''"
  by (simp add: hex_color_def format_02x_def zero_pad_def hex_digits.simps digit_char_def)

lemma hex_color_red: "hex_color (255, 0, 0) = ''#ff0000''"
  by (simp add: hex_color_def format_02x_def zero_pad_def hex_digits.simps digit_char_def)

lemma colormap_values_2: "colormap_values (Suc (Suc 0)) = [(0, 0, 65025), (255, 0, 0)]"
  by (simp add: colormap_values_def colors_def np_linspace_def Let_def py_int_def)

lemma colormap_values_3:
  "colormap_values (Suc (Suc (Suc 0))) = [(0, 0, 65025), (127, 0, 32512), (255, 0, 0)]"
  by (simp add: colormap_values_def colors_def np_linspace_def Let_def py_int_def)

text \<open>
  C3. For the percentage changes \<open>[50, -10]\<close> the generator returns two strings, and
  the first of them is \<^verbatim>\<open>#0000fe01\<close>: the blue channel \<open>255 * 255 = 65025\<close> takes
  four hexadecimal digits, so the string does not match \<^verbatim>\<open>^#[0-9a-f]{6}$\<close>.
\<close>

theorem colormap_first_color_not_hex6:
  "create_colormap [50, - 10] = Inr [''#0000fe01'', ''#ff0000'']
   \<and> \<not> is_hex_color ''#0000fe01''"
proof -
  have "create_colormap [50, - 10] = Inr [''#0000fe01'', ''#ff0000'']"
    by (simp add: create_colormap_nonempty colormap_values_2 hex_color_blue hex_color_red)
  moreover have "\<not> is_hex_color ''#0000fe01''"
    by (simp add: is_hex_color_def)
  ultimately show ?thesis by simp
qed

text \<open>
  C4. For three values the colour triples are \<open>(0, 0, 65025)\<close>, \<open>(127, 0, 32512)\<close> and
  \<open>(255, 0, 0)\<close>: the interpolation runs from \<open>(0, 0, 255)\<close> to \<open>(1, 0, 0)\<close> and
  every channel is then multiplied by 255, so the blue end is not \<open>(0, 0, 255)\<close> and its
  blue component is not two hexadecimal digits.
\<close>

theorem colormap_blue_endpoint_scaled_twice:
  "colormap_values 3 = [(0, 0, 65025), (127, 0, 32512), (255, 0, 0)]
   \<and> create_colormap [10, 20, 30] = Inr [''#0000fe01'', ''#7f007f00'', ''#ff0000'']"
proof -
  have "colormap_values 3 = [(0, 0, 65025), (127, 0, 32512), (255, 0, 0)]"
    by (simp add: numeral_3_eq_3 colormap_values_3)
  moreover have "create_colormap [10, 20, 30] = Inr [''#0000fe01'', ''#7f007f00'', ''#ff0000'']"
    by (simp add: create_colormap_nonempty colormap_values_3
        hex_color_blue hex_color_mid hex_color_red)
  ultimately show ?thesis by simp
qed

text \<open>
  C5. Two inputs of the same length \<open>N \<ge> 1\<close> give the same colours: the result depends
  on the length of the input only.
\<close>

theorem colormap_depends_on_length_only:
  assumes "length xs = length ys" and "1 \<le> length xs"
  shows "\<exists>cs. create_colormap xs = Inr cs \<and> create_colormap ys = Inr cs"
proof -
  from assms have "xs \<noteq> []" and "ys \<noteq> []" by auto
  then show ?thesis
    using assms(1) by (simp add: create_colormap_nonempty)
qed

theorem colormap_depends_on_length_only_witness:
  "\<exists>cs. create_colormap [50, - 10] = Inr cs \<and> create_colormap [1, 2] = Inr cs"
  using colormap_depends_on_length_only [of "[50, - 10]" "[1, 2]"] by simp

text \<open>
  C6. On a non-empty input whose values are all equal the generator raises nothing and
  returns as many colours as there are values.
\<close>

theorem colormap_all_equal_defined:
  assumes "xs \<noteq> []" and "list_all (\<lambda>x. x = hd xs) xs"
  shows "\<exists>cs. create_colormap xs = Inr cs \<and> length cs = length xs"
  using assms(1) by (simp add: create_colormap_nonempty length_colormap_values)

theorem colormap_all_equal_defined_witness:
  "\<exists>cs. create_colormap [5, 5, 5] = Inr cs \<and> length cs = 3"
  using colormap_all_equal_defined [of "[5, 5, 5]"] by (simp add: numeral_3_eq_3)

section \<open>Properties of the change calculator\<close>

lemma region_loop_rows:
  "list_all2 (\<lambda>p r. region_row (fst p) (snd p) = Inr r) ps rows \<Longrightarrow>
   region_loop ps data pcs = Inr (data @ rows, pcs @ collect rows)"
proof (induction ps rows arbitrary: data pcs rule: list_all2_induct)
  case Nil
  then show ?case by (simp add: collect_def)
next
  case (Cons p ps r rows)
  obtain sf ef where p: "p = (sf, ef)" by (cases p)
  from Cons.hyps(1) p have rr: "region_row sf ef = Inr r" by simp
  show ?case
    by (cases "Percentage_Change r") (simp_all add: p rr Cons.IH collect_def)
qed

lemma region_loop_Inr:
  "region_loop ps data pcs = Inr (d, q) \<Longrightarrow>
   \<exists>rows. list_all2 (\<lambda>p r. region_row (fst p) (snd p) = Inr r) ps rows
     \<and> d = data @ rows \<and> q = pcs @ collect rows"
proof (induction ps arbitrary: data pcs)
  case Nil
  then show ?case by (simp add: collect_def)
next
  case (Cons p ps)
  obtain sf ef where p: "p = (sf, ef)" by (cases p)
  from Cons.prems p obtain r where rr: "region_row sf ef = Inr r"
    and rest: "region_loop ps (data @ [r])
        (case Percentage_Change r of None \<Rightarrow> pcs | Some pc \<Rightarrow> pcs @ [pc]) = Inr (d, q)"
    by (auto split: sum.splits)
  from Cons.IH [OF rest] obtain rows where
    rows: "list_all2 (\<lambda>p r. region_row (fst p) (snd p) = Inr r) ps rows"
    and d: "d = (data @ [r]) @ rows"
    and q: "q = (case Percentage_Change r of None \<Rightarrow> pcs | Some pc \<Rightarrow> pcs @ [pc]) @ collect rows"
    by blast
  have "list_all2 (\<lambda>p r. region_row (fst p) (snd p) = Inr r) (p # ps) (r # rows)"
    using rows rr p by simp
  moreover have "d = data @ (r # rows)" using d by simp
  moreover have "q = pcs @ collect (r # rows)"
    using q by (cases "Percentage_Change r") (simp_all add: collect_def)
  ultimately show ?case by blast
qed

lemma region_loop_nth:
  assumes "region_loop (zip fs fe) [] [] = Inr (data, pcs)"
  shows "length data = min (length fs) (length fe)"
    and "i < length data \<Longrightarrow> region_row (fs ! i) (fe ! i) = Inr (data ! i)"
    and "pcs = collect data"
proof -
  from region_loop_Inr [OF assms] have
    la: "list_all2 (\<lambda>p r. region_row (fst p) (snd p) = Inr r) (zip fs fe) data"
    and pcs: "pcs = collect data"
    by auto
  from la show len: "length data = min (length fs) (length fe)"
    by (auto dest: list_all2_lengthD)
  show "pcs = collect data" by (rule pcs)
  assume i: "i < length data"
  with la len have "region_row (fst (zip fs fe ! i)) (snd (zip fs fe ! i)) = Inr (data ! i)"
    by (simp add: list_all2_conv_all_nth)
  with i len show "region_row (fs ! i) (fe ! i) = Inr (data ! i)" by simp
qed

lemma region_row_fields:
  assumes "region_row sf ef = Inr r"
  shows "properties sf ''ADM1_NAME'' = Some (State r)"
    and "Start_Mean_Radiance r = get_mean sf"
    and "End_Mean_Radiance r = get_mean ef"
    and "percentage_change (get_mean sf) (get_mean ef) = Inr (Percentage_Change r)"
proof -
  from assms obtain n pc where n: "properties sf ''ADM1_NAME'' = Some n"
    and pc: "percentage_change (get_mean sf) (get_mean ef) = Inr pc"
    and r: "r = \<lparr>State = n, Start_Mean_Radiance = get_mean sf,
              End_Mean_Radiance = get_mean ef, Percentage_Change = pc\<rparr>"
    by (auto simp: region_row_def Let_def split: option.splits sum.splits)
  show "properties sf ''ADM1_NAME'' = Some (State r)" using n r by simp
  show "Start_Mean_Radiance r = get_mean sf" using r by simp
  show "End_Mean_Radiance r = get_mean ef" using r by simp
  show "percentage_change (get_mean sf) (get_mean ef) = Inr (Percentage_Change r)"
    using pc r by simp
qed

text \<open>The rows of the example regions, evaluated.\<close>

lemma region_row_A:
  "region_row (region_feature ''A'' (PyNum 10)) (region_feature ''A'' (PyNum 15)) =
     Inr \<lparr>State = PyStr ''A'', Start_Mean_Radiance = PyNum 10,
          End_Mean_Radiance = PyNum 15, Percentage_Change = Some 50\<rparr>"
  by (simp add: region_row_def region_feature_def get_mean_def percentage_change_def)

lemma region_row_B:
  "region_row (region_feature ''B'' (PyNum 20)) (region_feature ''B'' (PyNum 18)) =
     Inr \<lparr>State = PyStr ''B'', Start_Mean_Radiance = PyNum 20,
          End_Mean_Radiance = PyNum 18, Percentage_Change = Some (- 10)\<rparr>"
  by (simp add: region_row_def region_feature_def get_mean_def percentage_change_def)

lemma region_row_B_missing:
  "region_row (region_feature ''B'' (PyNum 20)) (region_feature ''B'' PyNone) =
     Inr \<lparr>State = PyStr ''B'', Start_Mean_Radiance = PyNum 20,
          End_Mean_Radiance = PyNone, Percentage_Change = None\<rparr>"
  by (simp add: region_row_def region_feature_def get_mean_def percentage_change_def)

lemma region_row_total:
  assumes "properties sf ''ADM1_NAME'' \<noteq> None"
    and "\<not> is_str (get_mean sf)" and "\<not> is_str (get_mean ef)"
  shows "\<exists>r. region_row sf ef = Inr r"
proof -
  from assms(1) obtain n where n: "properties sf ''ADM1_NAME'' = Some n" by auto
  from assms(2,3) have "\<exists>pc. percentage_change (get_mean sf) (get_mean ef) = Inr pc"
    by (cases "get_mean sf"; cases "get_mean ef") (simp_all add: percentage_change_def)
  then show ?thesis
    using n by (auto simp: region_row_def Let_def)
qed

lemma rows_exist:
  "list_all (\<lambda>p. \<exists>r. region_row (fst p) (snd p) = Inr r) ps \<Longrightarrow>
   \<exists>rows. list_all2 (\<lambda>p r. region_row (fst p) (snd p) = Inr r) ps rows"
proof (induction ps)
  case Nil
  then show ?case by simp
next
  case (Cons p ps)
  then obtain r rows where "region_row (fst p) (snd p) = Inr r"
    and "list_all2 (\<lambda>p r. region_row (fst p) (snd p) = Inr r) ps rows"
    by auto
  then have "list_all2 (\<lambda>p r. region_row (fst p) (snd p) = Inr r) (p # ps) (r # rows)"
    by simp
  then show ?case by blast
qed

lemma percentage_change_falsy:
  "\<not> truthy s \<or> \<not> truthy e \<Longrightarrow> percentage_change s e = Inr None"
  by (auto simp: percentage_change_def)

lemma get_mean_falsy:
  "properties f ''mean'' \<in> {None, Some PyNone, Some (PyNum 0)} \<Longrightarrow> \<not> truthy (get_mean f)"
  by (auto simp: get_mean_def)

lemma zip_rows_exist:
  assumes names: "list_all (\<lambda>f. properties f ''ADM1_NAME'' \<noteq> None) fs"
    and ms: "list_all (\<lambda>f. \<not> is_str (get_mean f)) fs"
    and me: "list_all (\<lambda>f. \<not> is_str (get_mean f)) fe"
  shows "list_all (\<lambda>p. \<exists>r. region_row (fst p) (snd p) = Inr r) (zip fs fe)"
  unfolding list_all_iff
proof
  fix p assume p: "p \<in> set (zip fs fe)"
  obtain sf ef where pe: "p = (sf, ef)" by (cases p)
  from p pe have sf: "sf \<in> set fs" by (auto dest: set_zip_leftD)
  from p pe have ef: "ef \<in> set fe" by (auto dest: set_zip_rightD)
  from names sf have n: "properties sf ''ADM1_NAME'' \<noteq> None" by (simp add: list_all_iff)
  from ms sf have s: "\<not> is_str (get_mean sf)" by (simp add: list_all_iff)
  from me ef have e: "\<not> is_str (get_mean ef)" by (simp add: list_all_iff)
  from region_row_total [OF n s e] pe
  show "\<exists>r. region_row (fst p) (snd p) = Inr r" by simp
qed

lemma row_of_pair:
  assumes r: "region_row sf ef = Inr r"
  shows "properties sf ''ADM1_NAME'' = Some (State r)
          \<and> Start_Mean_Radiance r = get_mean sf
          \<and> End_Mean_Radiance r = get_mean ef
          \<and> (properties sf ''mean'' \<in> {None, Some PyNone, Some (PyNum 0)}
              \<or> properties ef ''mean'' \<in> {None, Some PyNone, Some (PyNum 0)}
              \<longrightarrow> Percentage_Change r = None)"
proof -
  have "Percentage_Change r = None"
    if "properties sf ''mean'' \<in> {None, Some PyNone, Some (PyNum 0)}
          \<or> properties ef ''mean'' \<in> {None, Some PyNone, Some (PyNum 0)}"
  proof -
    from that have "\<not> truthy (get_mean sf) \<or> \<not> truthy (get_mean ef)"
      using get_mean_falsy by blast
    then have "percentage_change (get_mean sf) (get_mean ef) = Inr None"
      by (rule percentage_change_falsy)
    with region_row_fields(4) [OF r] show ?thesis by simp
  qed
  with region_row_fields(1-3) [OF r] show ?thesis by simp
qed

lemma region_row_absent:
  assumes "properties sf ''ADM1_NAME'' \<noteq> None"
    and "\<not> (truthy (get_mean sf) \<and> truthy (get_mean ef))"
  shows "\<exists>r. region_row sf ef = Inr r \<and> Percentage_Change r = None"
proof -
  from assms(1) obtain n where n: "properties sf ''ADM1_NAME'' = Some n" by auto
  from assms(2) have "percentage_change (get_mean sf) (get_mean ef) = Inr None"
    by (simp add: percentage_change_falsy)
  with n show ?thesis
    by (simp add: region_row_def Let_def)
qed

lemma absent_rows_exist:
  "list_all (\<lambda>p. properties (fst p) ''ADM1_NAME'' \<noteq> None
       \<and> \<not> (truthy (get_mean (fst p)) \<and> truthy (get_mean (snd p)))) ps \<Longrightarrow>
   \<exists>rows. list_all2 (\<lambda>p r. region_row (fst p) (snd p) = Inr r) ps rows \<and> collect rows = []"
proof (induction ps)
  case Nil
  then show ?case by (simp add: collect_def)
next
  case (Cons p ps)
  from Cons.prems have "properties (fst p) ''ADM1_NAME'' \<noteq> None"
    and "\<not> (truthy (get_mean (fst p)) \<and> truthy (get_mean (snd p)))"
    by simp_all
  then obtain r where r: "region_row (fst p) (snd p) = Inr r" "Percentage_Change r = None"
    using region_row_absent by blast
  from Cons obtain rows where
    rows: "list_all2 (\<lambda>p r. region_row (fst p) (snd p) = Inr r) ps rows" "collect rows = []"
    by auto
  have "list_all2 (\<lambda>p r. region_row (fst p) (snd p) = Inr r) (p # ps) (r # rows)"
    using r(1) rows(1) by simp
  moreover have "collect (r # rows) = []"
    using r(2) rows(2) by (simp add: collect_def)
  ultimately show ?case by blast
qed

text \<open>
  C1. In the rows the loop builds, a region whose start and end means are both numbers
  other than zero has the percentage change \<open>(end - start) / start * 100\<close>, in exact
  arithmetic.
\<close>

theorem percentage_change_formula:
  assumes "region_loop (zip features_start features_end) [] [] = Inr (data, pcs)"
    and "i < length data"
    and "properties (features_start ! i) ''mean'' = Some (PyNum s)"
    and "properties (features_end ! i) ''mean'' = Some (PyNum e)"
    and "s \<noteq> 0" and "e \<noteq> 0"
  shows "Percentage_Change (data ! i) = Some ((e - s) / s * 100)"
proof -
  have "region_row (features_start ! i) (features_end ! i) = Inr (data ! i)"
    using assms(1,2) by (rule region_loop_nth(2))
  then have "percentage_change (get_mean (features_start ! i)) (get_mean (features_end ! i))
      = Inr (Percentage_Change (data ! i))"
    by (rule region_row_fields(4))
  moreover have "get_mean (features_start ! i) = PyNum s"
    and "get_mean (features_end ! i) = PyNum e"
    using assms(3,4) by (simp_all add: get_mean_def)
  ultimately show ?thesis
    using assms(5,6) by (simp add: percentage_change_def)
qed

theorem percentage_change_formula_witness:
  "region_loop (zip [region_feature ''A'' (PyNum 10), region_feature ''B'' (PyNum 20)]
                    [region_feature ''A'' (PyNum 15), region_feature ''B'' (PyNum 18)]) [] [] =
     Inr ([\<lparr>State = PyStr ''A'', Start_Mean_Radiance = PyNum 10,
            End_Mean_Radiance = PyNum 15, Percentage_Change = Some 50\<rparr>,
           \<lparr>State = PyStr ''B'', Start_Mean_Radiance = PyNum 20,
            End_Mean_Radiance = PyNum 18, Percentage_Change = Some (- 10)\<rparr>], [50, - 10])
   \<and> Some (50::real) = Some ((15 - 10) / 10 * 100)"
proof -
  have loop: "region_loop (zip [region_feature ''A'' (PyNum 10), region_feature ''B'' (PyNum 20)]
                    [region_feature ''A'' (PyNum 15), region_feature ''B'' (PyNum 18)]) [] [] =
     Inr ([\<lparr>State = PyStr ''A'', Start_Mean_Radiance = PyNum 10,
            End_Mean_Radiance = PyNum 15, Percentage_Change = Some 50\<rparr>,
           \<lparr>State = PyStr ''B'', Start_Mean_Radiance = PyNum 20,
            End_Mean_Radiance = PyNum 18, Percentage_Change = Some (- 10)\<rparr>], [50, - 10])"
    by (simp add: region_row_A region_row_B)
  from percentage_change_formula [OF loop, of 0 10 15] show ?thesis
    using loop by (simp add: region_feature_def)
qed

text \<open>
  The accumulator of the loop: when every start feature has a name and no mean is a
  string, the loop builds one row for each pair of features, each from its own pair, and
  a row whose start or end mean is absent, null or zero has no percentage change.
\<close>

lemma region_loop_emits_rows:
  assumes names: "list_all (\<lambda>f. properties f ''ADM1_NAME'' \<noteq> None) features_start"
    and ms: "list_all (\<lambda>f. \<not> is_str (get_mean f)) features_start"
    and me: "list_all (\<lambda>f. \<not> is_str (get_mean f)) features_end"
  shows "\<exists>data pcs.
      region_loop (zip features_start features_end) [] [] = Inr (data, pcs)
      \<and> length data = min (length features_start) (length features_end)
      \<and> (\<forall>i<length data.
            region_row (features_start ! i) (features_end ! i) = Inr (data ! i)
          \<and> properties (features_start ! i) ''ADM1_NAME'' = Some (State (data ! i))
          \<and> Start_Mean_Radiance (data ! i) = get_mean (features_start ! i)
          \<and> End_Mean_Radiance (data ! i) = get_mean (features_end ! i)
          \<and> (properties (features_start ! i) ''mean'' \<in> {None, Some PyNone, Some (PyNum 0)}
              \<or> properties (features_end ! i) ''mean'' \<in> {None, Some PyNone, Some (PyNum 0)}
              \<longrightarrow> Percentage_Change (data ! i) = None))"
proof -
  from zip_rows_exist [OF names ms me] obtain rows where
    rows: "list_all2 (\<lambda>p r. region_row (fst p) (snd p) = Inr r) (zip features_start features_end) rows"
    using rows_exist by blast
  have loop: "region_loop (zip features_start features_end) [] [] = Inr (rows, collect rows)"
    using region_loop_rows [OF rows, of "[]" "[]"] by simp
  have len: "length rows = min (length features_start) (length features_end)"
    using loop by (rule region_loop_nth(1))
  have each: "\<forall>i<length rows.
            region_row (features_start ! i) (features_end ! i) = Inr (rows ! i)
          \<and> properties (features_start ! i) ''ADM1_NAME'' = Some (State (rows ! i))
          \<and> Start_Mean_Radiance (rows ! i) = get_mean (features_start ! i)
          \<and> End_Mean_Radiance (rows ! i) = get_mean (features_end ! i)
          \<and> (properties (features_start ! i) ''mean'' \<in> {None, Some PyNone, Some (PyNum 0)}
              \<or> properties (features_end ! i) ''mean'' \<in> {None, Some PyNone, Some (PyNum 0)}
              \<longrightarrow> Percentage_Change (rows ! i) = None)"
  proof (intro allI impI)
    fix i assume i: "i < length rows"
    have r: "region_row (features_start ! i) (features_end ! i) = Inr (rows ! i)"
      using loop i by (rule region_loop_nth(2))
    from r row_of_pair [OF r]
    show "region_row (features_start ! i) (features_end ! i) = Inr (rows ! i)
          \<and> properties (features_start ! i) ''ADM1_NAME'' = Some (State (rows ! i))
          \<and> Start_Mean_Radiance (rows ! i) = get_mean (features_start ! i)
          \<and> End_Mean_Radiance (rows ! i) = get_mean (features_end ! i)
          \<and> (properties (features_start ! i) ''mean'' \<in> {None, Some PyNone, Some (PyNum 0)}
              \<or> properties (features_end ! i) ''mean'' \<in> {None, Some PyNone, Some (PyNum 0)}
              \<longrightarrow> Percentage_Change (rows ! i) = None)"
      by (rule conjI)
  qed
  show ?thesis
    by (rule exI [of _ rows], rule exI [of _ "collect rows"]) (intro conjI loop len each)
qed

section \<open>Properties of fetching and rendering\<close>

lemma nightlights_start_example:
  "nightlights_start example_inputs = (''2024-01-01'', ''2024-01-28'')"
  by (simp add: nightlights_start_def start_date_def example_inputs_def str_int_def
      format_02d_def zero_pad_def dec_digits.simps digit_char_def)

lemma nightlights_end_example:
  "nightlights_end example_inputs = (''2024-02-01'', ''2024-02-28'')"
  by (simp add: nightlights_end_def end_date_def example_inputs_def str_int_def
      format_02d_def zero_pad_def dec_digits.simps digit_char_def)

lemma fetch_data_empty:
  "collection_size ee (nightlights_start inp) = 0 \<or> collection_size ee (nightlights_end inp) = 0
   \<Longrightarrow> fetch_data ee inp = Inr (Frame error_frame)"
  by (auto simp: fetch_data_def)

lemma fetch_data_nonempty:
  assumes "collection_size ee (nightlights_start inp) \<noteq> 0"
    and "collection_size ee (nightlights_end inp) \<noteq> 0"
    and "region_loop (zip (reduce_regions ee (nightlights_start inp))
            (reduce_regions ee (nightlights_end inp))) [] [] = Inr (data, pcs)"
  shows "fetch_data ee inp =
     (case create_colormap pcs of Inl e \<Rightarrow> Inl e
      | Inr hex_colors \<Rightarrow> Inr (Tuple2 (pd_DataFrame data) (geemap_Map (35, 105) 5)))"
  using assms by (simp add: fetch_data_def Let_def)

lemma collect_nonempty:
  assumes "i < length rows" and "Percentage_Change (rows ! i) \<noteq> None"
  shows "collect rows \<noteq> []"
proof -
  from assms(1) have "rows ! i \<in> set rows" by simp
  moreover from assms(2) have
    "(case Percentage_Change (rows ! i) of None \<Rightarrow> [] | Some pc \<Rightarrow> [pc]) \<noteq> []"
    by (cases "Percentage_Change (rows ! i)") simp_all
  ultimately show ?thesis
    by (auto simp: collect_def)
qed

lemma percentage_change_truthy:
  assumes "truthy s" and "truthy e" and "\<not> is_str s" and "\<not> is_str e"
  shows "\<exists>x. percentage_change s e = Inr (Some x)"
  using assms by (cases s; cases e) (simp_all add: percentage_change_def)

text \<open>
  The rows reach the table when some region has two truthy means: then the list of
  percentage changes is not empty, the colormap call returns, and \<^verbatim>\<open>fetch_data\<close>
  hands the rows of the loop to \<^verbatim>\<open>table\<close>, a row with a missing mean among them.
\<close>

lemma fetch_data_emits_rows:
  assumes s: "collection_size ee (nightlights_start inp) \<noteq> 0"
    and e: "collection_size ee (nightlights_end inp) \<noteq> 0"
    and fs: "features_start = reduce_regions ee (nightlights_start inp)"
    and fe: "features_end = reduce_regions ee (nightlights_end inp)"
    and names: "list_all (\<lambda>f. properties f ''ADM1_NAME'' \<noteq> None) features_start"
    and ms: "list_all (\<lambda>f. \<not> is_str (get_mean f)) features_start"
    and me: "list_all (\<lambda>f. \<not> is_str (get_mean f)) features_end"
    and some: "list_ex (\<lambda>p. truthy (get_mean (fst p)) \<and> truthy (get_mean (snd p)))
                 (zip features_start features_end)"
  shows "\<exists>data.
      fetch_data ee inp = Inr (Tuple2 (pd_DataFrame data) (geemap_Map (35, 105) 5))
      \<and> table ee inp = Inr (ObjFrame (pd_DataFrame data))
      \<and> length data = min (length features_start) (length features_end)
      \<and> (\<forall>i<length data.
            region_row (features_start ! i) (features_end ! i) = Inr (data ! i)
          \<and> properties (features_start ! i) ''ADM1_NAME'' = Some (State (data ! i))
          \<and> Start_Mean_Radiance (data ! i) = get_mean (features_start ! i)
          \<and> End_Mean_Radiance (data ! i) = get_mean (features_end ! i)
          \<and> (properties (features_start ! i) ''mean'' \<in> {None, Some PyNone, Some (PyNum 0)}
              \<or> properties (features_end ! i) ''mean'' \<in> {None, Some PyNone, Some (PyNum 0)}
              \<longrightarrow> Percentage_Change (data ! i) = None))"
proof -
  from region_loop_emits_rows [OF names ms me]
  obtain data pcs where
    loop: "region_loop (zip features_start features_end) [] [] = Inr (data, pcs)"
    and len: "length data = min (length features_start) (length features_end)"
    and each: "\<forall>i<length data.
            region_row (features_start ! i) (features_end ! i) = Inr (data ! i)
          \<and> properties (features_start ! i) ''ADM1_NAME'' = Some (State (data ! i))
          \<and> Start_Mean_Radiance (data ! i) = get_mean (features_start ! i)
          \<and> End_Mean_Radiance (data ! i) = get_mean (features_end ! i)
          \<and> (properties (features_start ! i) ''mean'' \<in> {None, Some PyNone, Some (PyNum 0)}
              \<or> properties (features_end ! i) ''mean'' \<in> {None, Some PyNone, Some (PyNum 0)}
              \<longrightarrow> Percentage_Change (data ! i) = None)"
    by blast
  have pcs: "pcs = collect data"
    using loop by (rule region_loop_nth(3))
  from some obtain p where p: "p \<in> set (zip features_start features_end)"
    and ts: "truthy (get_mean (fst p))" and te: "truthy (get_mean (snd p))"
    by (auto simp: list_ex_iff)
  from p obtain i where i: "i < length (zip features_start features_end)"
    and pi: "zip features_start features_end ! i = p"
    by (auto simp: in_set_conv_nth)
  from i len have il: "i < length data" by simp
  from i pi have fst_p: "fst p = features_start ! i" and snd_p: "snd p = features_end ! i"
    by auto
  from i have "features_start ! i \<in> set features_start" and "features_end ! i \<in> set features_end"
    by simp_all
  with ms me have ns: "\<not> is_str (get_mean (features_start ! i))"
    and ne: "\<not> is_str (get_mean (features_end ! i))"
    by (simp_all add: list_all_iff)
  from percentage_change_truthy [OF ts te] ns ne fst_p snd_p obtain x where
    x: "percentage_change (get_mean (features_start ! i)) (get_mean (features_end ! i)) = Inr (Some x)"
    by auto
  have r: "region_row (features_start ! i) (features_end ! i) = Inr (data ! i)"
    using loop il by (rule region_loop_nth(2))
  from region_row_fields(4) [OF r] x have "Percentage_Change (data ! i) = Some x"
    by simp
  then have "Percentage_Change (data ! i) \<noteq> None"
    by simp
  with il have "collect data \<noteq> []"
    by (rule collect_nonempty)
  with pcs have ne_pcs: "pcs \<noteq> []" by simp
  have f: "fetch_data ee inp = Inr (Tuple2 (pd_DataFrame data) (geemap_Map (35, 105) 5))"
    using fetch_data_nonempty [OF s e loop [unfolded fs fe]] ne_pcs
    by (simp add: create_colormap_nonempty)
  have t: "table ee inp = Inr (ObjFrame (pd_DataFrame data))"
    by (simp add: table_def f)
  show ?thesis
    by (rule exI [of _ data]) (intro conjI f t len each)
qed

lemma fetch_data_one_missing_example:
  "fetch_data
     (example_service 1 [region_feature ''A'' (PyNum 10), region_feature ''B'' (PyNum 20)]
        [region_feature ''A'' (PyNum 15), region_feature ''B'' PyNone])
     example_inputs =
   Inr (Tuple2
     (DataFrame [''State'', ''Start Mean Radiance'', ''End Mean Radiance'', ''Percentage Change'']
        [[PyStr ''A'', PyNum 10, PyNum 15, PyNum 50],
         [PyStr ''B'', PyNum 20, PyNone, PyNone]])
     \<lparr>center = (35, 105), zoom = 5\<rparr>)"
proof -
  let ?ee = "example_service 1 [region_feature ''A'' (PyNum 10), region_feature ''B'' (PyNum 20)]
        [region_feature ''A'' (PyNum 15), region_feature ''B'' PyNone]"
  let ?data = "[\<lparr>State = PyStr ''A'', Start_Mean_Radiance = PyNum 10,
            End_Mean_Radiance = PyNum 15, Percentage_Change = Some 50\<rparr>,
           \<lparr>State = PyStr ''B'', Start_Mean_Radiance = PyNum 20,
            End_Mean_Radiance = PyNone, Percentage_Change = None\<rparr>]"
  have s: "collection_size ?ee (nightlights_start example_inputs) \<noteq> 0"
    and e: "collection_size ?ee (nightlights_end example_inputs) \<noteq> 0"
    by (simp_all add: example_service_def)
  have loop: "region_loop (zip (reduce_regions ?ee (nightlights_start example_inputs))
            (reduce_regions ?ee (nightlights_end example_inputs))) [] [] = Inr (?data, [50])"
    by (simp add: example_service_def nightlights_start_example nightlights_end_example
        region_row_A region_row_B_missing)
  show ?thesis
    using fetch_data_nonempty [OF s e loop]
    by (simp add: create_colormap_nonempty pd_DataFrame_def geemap_Map_def)
qed

text \<open>
  C7. A batch of one region whose end mean is null: the loop builds its row, with the
  name, the start mean and no percentage change, and collects no percentage change. The
  call of \<^verbatim>\<open>create_colormap\<close> on the empty list then raises \<^verbatim>\<open>ValueError\<close>, so
  \<^verbatim>\<open>fetch_data\<close> and \<^verbatim>\<open>table\<close> raise and the row is not emitted.
\<close>

theorem all_means_missing_no_row_emitted:
  "region_loop (zip [region_feature ''B'' (PyNum 20)] [region_feature ''B'' PyNone]) [] []
     = Inr ([\<lparr>State = PyStr ''B'', Start_Mean_Radiance = PyNum 20,
              End_Mean_Radiance = PyNone, Percentage_Change = None\<rparr>], [])
   \<and> fetch_data (example_service 1 [region_feature ''B'' (PyNum 20)]
         [region_feature ''B'' PyNone]) example_inputs = Inl ValueError
   \<and> table (example_service 1 [region_feature ''B'' (PyNum 20)]
         [region_feature ''B'' PyNone]) example_inputs = Inl ValueError"
proof -
  let ?ee = "example_service 1 [region_feature ''B'' (PyNum 20)] [region_feature ''B'' PyNone]"
  have loop0: "region_loop (zip [region_feature ''B'' (PyNum 20)] [region_feature ''B'' PyNone]) [] []
     = Inr ([\<lparr>State = PyStr ''B'', Start_Mean_Radiance = PyNum 20,
              End_Mean_Radiance = PyNone, Percentage_Change = None\<rparr>], [])"
    by (simp add: region_row_B_missing)
  have s: "collection_size ?ee (nightlights_start example_inputs) \<noteq> 0"
    and e: "collection_size ?ee (nightlights_end example_inputs) \<noteq> 0"
    by (simp_all add: example_service_def)
  have loop: "region_loop (zip (reduce_regions ?ee (nightlights_start example_inputs))
            (reduce_regions ?ee (nightlights_end example_inputs))) [] []
     = Inr ([\<lparr>State = PyStr ''B'', Start_Mean_Radiance = PyNum 20,
              End_Mean_Radiance = PyNone, Percentage_Change = None\<rparr>], [])"
    by (simp add: example_service_def nightlights_start_example nightlights_end_example
        region_row_B_missing)
  have f: "fetch_data ?ee example_inputs = Inl ValueError"
    using fetch_data_nonempty [OF s e loop] by (simp add: create_colormap_Nil)
  have t: "table ?ee example_inputs = Inl ValueError"
    using f by (simp add: table_def)
  from loop0 f t show ?thesis by simp
qed

lemma fixed_digits_2:
  "fixed_digits 2 n = [digit_char (n div 10 mod 10), digit_char (n mod 10)]"
  by (simp add: numeral_2_eq_2)

lemma fixed_digits_4:
  "fixed_digits 4 n =
     [digit_char (n div 10 div 10 div 10 mod 10), digit_char (n div 10 div 10 mod 10),
      digit_char (n div 10 mod 10), digit_char (n mod 10)]"
proof -
  have e: "(4::nat) = Suc (Suc (Suc (Suc 0)))" by simp
  show ?thesis unfolding e by simp
qed

lemma year_string:
  "y \<in> set year_choices \<Longrightarrow> str_int y = fixed_digits 4 (nat y)"
  by (auto simp: year_choices_def str_int_def fixed_digits_4 dec_digits.simps)

lemma month_string:
  "m \<in> set month_choices \<Longrightarrow> format_02d m = fixed_digits 2 (nat m)"
  by (auto simp: month_choices_def format_02d_def zero_pad_def fixed_digits_2 dec_digits.simps
      digit_char_def)

lemma day_strings:
  "yyyy_mm_dd y m 1 = fixed_digits 4 (nat y) @ ''-'' @ fixed_digits 2 (nat m) @ ''-01''"
  "yyyy_mm_dd y m 28 = fixed_digits 4 (nat y) @ ''-'' @ fixed_digits 2 (nat m) @ ''-28''"
  by (simp_all add: yyyy_mm_dd_def fixed_digits_2 digit_char_def)

text \<open>
  C8. For every year and month the form offers, the date range of each of the two image
  collections starts at day 01 and ends at day 28 of the selected year and month, written
  \<^verbatim>\<open>YYYY-MM-DD\<close>.
\<close>

theorem query_dates_fixed_days:
  assumes "start_year inp \<in> set year_choices" and "start_month inp \<in> set month_choices"
    and "end_year inp \<in> set year_choices" and "end_month inp \<in> set month_choices"
  shows "nightlights_start inp =
       (yyyy_mm_dd (start_year inp) (start_month inp) 1,
        yyyy_mm_dd (start_year inp) (start_month inp) 28)
     \<and> nightlights_end inp =
       (yyyy_mm_dd (end_year inp) (end_month inp) 1,
        yyyy_mm_dd (end_year inp) (end_month inp) 28)"
  using assms
  by (simp add: nightlights_start_def nightlights_end_def start_date_def end_date_def
      year_string month_string day_strings)

theorem query_dates_fixed_days_witness:
  "nightlights_start example_inputs = (''2024-01-01'', ''2024-01-28'')
   \<and> nightlights_end example_inputs = (''2024-02-01'', ''2024-02-28'')"
proof -
  have "start_year example_inputs \<in> set year_choices"
    and "start_month example_inputs \<in> set month_choices"
    and "end_year example_inputs \<in> set year_choices"
    and "end_month example_inputs \<in> set month_choices"
    by (simp_all add: example_inputs_def year_choices_def month_choices_def)
  from query_dates_fixed_days [OF this] show ?thesis
    by (simp add: example_inputs_def day_strings fixed_digits_2 fixed_digits_4 digit_char_def)
qed

text \<open>
  C2. When the collection of the end month has no image, \<^verbatim>\<open>fetch_data\<close> returns the
  bare error table, and both renderers raise \<^verbatim>\<open>ValueError\<close> when they unpack it
  into two values: the error table has one column.
\<close>

theorem empty_result_table_raises:
  "fetch_data (example_service 0 [] []) example_inputs = Inr (Frame error_frame)
   \<and> table (example_service 0 [] []) example_inputs = Inl ValueError
   \<and> map_output (example_service 0 [] []) example_inputs = Inl ValueError"
proof -
  have "collection_size (example_service 0 [] []) (nightlights_end example_inputs) = 0"
    by (simp add: example_service_def nightlights_end_example)
  then have f: "fetch_data (example_service 0 [] []) example_inputs = Inr (Frame error_frame)"
    by (simp add: fetch_data_empty)
  show ?thesis
    by (simp add: f table_def map_output_def error_frame_def)
qed

text \<open>
  C9. Whenever \<^verbatim>\<open>fetch_data\<close> returns a table and a map, the map is the widget with
  centre \<open>(35, 105)\<close> and zoom 5, and the table is the data frame of the rows of the
  loop: neither holds the hexadecimal colours.
\<close>

theorem map_is_constant:
  assumes "fetch_data ee inp = Inr (Tuple2 df Map)"
  shows "Map = \<lparr>center = (35, 105), zoom = 5\<rparr>
     \<and> (\<exists>data pcs.
          region_loop (zip (reduce_regions ee (nightlights_start inp))
            (reduce_regions ee (nightlights_end inp))) [] [] = Inr (data, pcs)
          \<and> df = pd_DataFrame data)"
  using assms
  by (auto simp: fetch_data_def Let_def geemap_Map_def split: if_splits sum.splits prod.splits)

theorem map_is_constant_witness:
  "fetch_data
     (example_service 1 [region_feature ''A'' (PyNum 10), region_feature ''B'' (PyNum 20)]
        [region_feature ''A'' (PyNum 15), region_feature ''B'' (PyNum 18)])
     example_inputs =
   Inr (Tuple2
     (DataFrame [''State'', ''Start Mean Radiance'', ''End Mean Radiance'', ''Percentage Change'']
        [[PyStr ''A'', PyNum 10, PyNum 15, PyNum 50],
         [PyStr ''B'', PyNum 20, PyNum 18, PyNum (- 10)]])
     \<lparr>center = (35, 105), zoom = 5\<rparr>)"
proof -
  let ?ee = "example_service 1 [region_feature ''A'' (PyNum 10), region_feature ''B'' (PyNum 20)]
        [region_feature ''A'' (PyNum 15), region_feature ''B'' (PyNum 18)]"
  let ?data = "[\<lparr>State = PyStr ''A'', Start_Mean_Radiance = PyNum 10,
            End_Mean_Radiance = PyNum 15, Percentage_Change = Some 50\<rparr>,
           \<lparr>State = PyStr ''B'', Start_Mean_Radiance = PyNum 20,
            End_Mean_Radiance = PyNum 18, Percentage_Change = Some (- 10)\<rparr>]"
  have s: "collection_size ?ee (nightlights_start example_inputs) \<noteq> 0"
    and e: "collection_size ?ee (nightlights_end example_inputs) \<noteq> 0"
    by (simp_all add: example_service_def)
  have loop: "region_loop (zip (reduce_regions ?ee (nightlights_start example_inputs))
            (reduce_regions ?ee (nightlights_end example_inputs))) [] [] = Inr (?data, [50, - 10])"
    by (simp add: example_service_def nightlights_start_example nightlights_end_example
        region_row_A region_row_B)
  have f: "fetch_data ?ee example_inputs = Inr (Tuple2 (pd_DataFrame ?data) (geemap_Map (35, 105) 5))"
    using fetch_data_nonempty [OF s e loop] by (simp add: create_colormap_nonempty)
  from map_is_constant [OF f] have "geemap_Map (35, 105) 5 = \<lparr>center = (35, 105), zoom = 5\<rparr>"
    by simp
  with f show ?thesis
    by (simp add: pd_DataFrame_def)
qed

text \<open>
  C10. The generator raises \<^verbatim>\<open>ValueError\<close> on the empty list, and when both queries
  find images but no region has two truthy means, the loop collects no percentage change
  and \<^verbatim>\<open>fetch_data\<close> raises that error: nothing guards the call.
\<close>

theorem empty_changes_raise:
  assumes s: "collection_size ee (nightlights_start inp) \<noteq> 0"
    and e: "collection_size ee (nightlights_end inp) \<noteq> 0"
    and absent: "list_all (\<lambda>p. properties (fst p) ''ADM1_NAME'' \<noteq> None
            \<and> \<not> (truthy (get_mean (fst p)) \<and> truthy (get_mean (snd p))))
          (zip (reduce_regions ee (nightlights_start inp))
               (reduce_regions ee (nightlights_end inp)))"
  shows "create_colormap [] = Inl ValueError
     \<and> (\<exists>data. region_loop (zip (reduce_regions ee (nightlights_start inp))
                 (reduce_regions ee (nightlights_end inp))) [] [] = Inr (data, []))
     \<and> fetch_data ee inp = Inl ValueError"
proof -
  from absent_rows_exist [OF absent] obtain rows where
    rows: "list_all2 (\<lambda>p r. region_row (fst p) (snd p) = Inr r)
        (zip (reduce_regions ee (nightlights_start inp))
             (reduce_regions ee (nightlights_end inp))) rows"
    and none: "collect rows = []"
    by blast
  have loop: "region_loop (zip (reduce_regions ee (nightlights_start inp))
                 (reduce_regions ee (nightlights_end inp))) [] [] = Inr (rows, [])"
    using region_loop_rows [OF rows, of "[]" "[]"] none by simp
  have "fetch_data ee inp = Inl ValueError"
    by (simp add: fetch_data_nonempty [OF s e loop] create_colormap_Nil)
  with loop show ?thesis
    by (auto simp: create_colormap_Nil)
qed

theorem empty_changes_raise_witness:
  "create_colormap [] = Inl ValueError
   \<and> fetch_data (example_service 1 [region_feature ''B'' (PyNum 20)] [region_feature ''B'' PyNone])
       example_inputs = Inl ValueError"
proof -
  let ?ee = "example_service 1 [region_feature ''B'' (PyNum 20)] [region_feature ''B'' PyNone]"
  have s: "collection_size ?ee (nightlights_start example_inputs) \<noteq> 0"
    and e: "collection_size ?ee (nightlights_end example_inputs) \<noteq> 0"
    by (simp_all add: example_service_def)
  have absent: "list_all (\<lambda>p. properties (fst p) ''ADM1_NAME'' \<noteq> None
            \<and> \<not> (truthy (get_mean (fst p)) \<and> truthy (get_mean (snd p))))
          (zip (reduce_regions ?ee (nightlights_start example_inputs))
               (reduce_regions ?ee (nightlights_end example_inputs)))"
    by (simp add: example_service_def nightlights_start_example nightlights_end_example
        region_feature_def get_mean_def)
  from empty_changes_raise [OF s e absent] show ?thesis by simp
qed

end
